theory Spec2Isabelle
  imports Complex_Main
begin

section \<open>Tensors and element-wise operations\<close>

text \<open>
  The notebook \<^verbatim>\<open>3_adv_interp_attention.ipynb\<close> works on dense tensors of the
  automatic-differentiation library. A tensor is modelled by its shape and its elements
  in storage (row-major) order. Elements are exact real numbers: rounding, infinities
  and NaN of the machine representation are outside this development, except that the
  one division of the notebook is modelled with its zero-divisor case written out.
\<close>

record tensor =
  dims :: "nat list"
  elems :: "real list"

text \<open>\<^verbatim>\<open>torch.clamp(v, lo, hi)\<close> on one element: the lower bound is applied first, the
  upper bound second, so that a lower bound above the upper bound yields the upper bound.\<close>

definition clamp :: "real \<Rightarrow> real \<Rightarrow> real \<Rightarrow> real" where
  "clamp v lo hi = min (max v lo) hi"

text \<open>\<^verbatim>\<open>Tensor.sign()\<close>, \<^verbatim>\<open>a + b\<close>, \<^verbatim>\<open>a - b\<close>, \<^verbatim>\<open>c * a\<close> and
  \<^verbatim>\<open>torch.clamp\<close> on element lists of one shape.\<close>

definition sign_t :: "real list \<Rightarrow> real list" where
  "sign_t g = map sgn g"

definition add_t :: "real list \<Rightarrow> real list \<Rightarrow> real list" where
  "add_t a b = map2 (+) a b"

definition sub_t :: "real list \<Rightarrow> real list \<Rightarrow> real list" where
  "sub_t a b = map2 (-) a b"

definition scale_t :: "real \<Rightarrow> real list \<Rightarrow> real list" where
  "scale_t c a = map ((*) c) a"

definition clamp_t :: "real list \<Rightarrow> real \<Rightarrow> real \<Rightarrow> real list" where
  "clamp_t a lo hi = map (\<lambda>v. clamp v lo hi) a"

section \<open>Program state\<close>

text \<open>
  Tensors are objects that the code shares by reference and, in places, updates in place
  (\<^verbatim>\<open>requires_grad\<close>, \<^verbatim>\<open>.grad\<close>). Float tensors live in a heap indexed by address;
  label tensors live in a heap of their own. The classifier is the object \<^verbatim>\<open>model\<close> of
  class \<^verbatim>\<open>CNN\<close>: its parameters, their gradient buffers, the attribute
  \<^verbatim>\<open>last_feature_map\<close> that \<^verbatim>\<open>forward\<close> assigns, and the training flag set by
  \<^verbatim>\<open>model.train()\<close> and \<^verbatim>\<open>model.eval()\<close>. The random generator that
  \<^verbatim>\<open>nn.Dropout\<close> draws from is global state.
\<close>

record tobj = tensor +
  requires_grad :: bool
  grad :: "real list option"

record classifier =
  params :: "real list"
  param_grads :: "real list option"
  last_feature_map :: "tensor option"
  training :: bool

record 'r state =
  heap :: "tobj list"
  labels :: "int list list"
  model :: classifier
  rng :: 'r

datatype loss = CrossEntropyLoss | UserLoss nat

datatype error = AttributeError | TypeError | IndexError | RuntimeError | NotANumber

definition value_of :: "tobj \<Rightarrow> tensor" where
  "value_of t = \<lparr>dims = dims t, elems = elems t\<rparr>"

section \<open>The library: layers and automatic differentiation\<close>

text \<open>
  Convolution, pooling, the linear head, the loss functions and reverse-mode
  differentiation are library code. They enter as the fields of a record, one function
  each, and every theorem holds for all of them:
  \<^item> \<open>conv\<close> is \<^verbatim>\<open>self.conv\<close> (which contains \<^verbatim>\<open>nn.Dropout(p=0.2)\<close>): from the
    parameters, the dropout mask (\<open>None\<close> in evaluation mode, where dropout is the
    identity) and the input to the feature map;
  \<^item> \<open>pool_head\<close> is \<^verbatim>\<open>self.head(self.pool(.))\<close>;
  \<^item> \<open>dropout_mask\<close> draws a mask from the random generator and advances it;
  \<^item> \<open>grad_input\<close> is the partial derivative of the loss of the forward pass with respect
    to the input element of the given index, \<open>grad_params\<close> its gradient with respect
    to the parameters;
  \<^item> \<open>score_grad_params\<close> is the gradient of one class score of the first image with
    respect to the parameters;
  \<^item> \<open>layer_output\<close> is what a forward hook on the layer of the given handle receives,
    the layer's output, or \<open>None\<close> when the pass does not run through the layer (then no
    hook fires); \<open>layer_grad\<close> is what the backward hook on that layer receives, the
    gradient of one class score of the first image with respect to the layer's output.
  The functions are total: an input that the library would reject is not modelled.
\<close>

record 'r torch =
  conv :: "real list \<Rightarrow> bool list option \<Rightarrow> tensor \<Rightarrow> tensor"
  pool_head :: "real list \<Rightarrow> tensor \<Rightarrow> tensor"
  dropout_mask :: "'r \<Rightarrow> bool list \<times> 'r"
  grad_input :: "loss \<Rightarrow> real list \<Rightarrow> bool list option \<Rightarrow> tensor \<Rightarrow> int list \<Rightarrow> nat \<Rightarrow> real"
  grad_params :: "loss \<Rightarrow> real list \<Rightarrow> bool list option \<Rightarrow> tensor \<Rightarrow> int list \<Rightarrow> real list"
  score_grad_params :: "real list \<Rightarrow> bool list option \<Rightarrow> tensor \<Rightarrow> nat \<Rightarrow> real list"
  layer_output :: "nat \<Rightarrow> real list \<Rightarrow> bool list option \<Rightarrow> tensor \<Rightarrow> tensor option"
  layer_grad :: "nat \<Rightarrow> real list \<Rightarrow> bool list option \<Rightarrow> tensor \<Rightarrow> nat \<Rightarrow> tensor"

text \<open>The dropout mask of one forward pass: drawn in training mode only.\<close>

definition forward_mask :: "'r torch \<Rightarrow> 'r state \<Rightarrow> bool list option \<times> 'r" where
  "forward_mask T s =
     (if training (model s)
      then (case dropout_mask T (rng s) of (m, r) \<Rightarrow> (Some m, r))
      else (None, rng s))"

text \<open>
  \<^verbatim>\<open>CNN.forward\<close>: returns the scores and the mask the pass used, and assigns
  \<^verbatim>\<open>self.last_feature_map\<close>. The feature map is kept as a value; the gradient that
  \<^verbatim>\<open>retain_grad\<close> lets a later backward pass store on it is not part of the model.
\<close>

definition CNN_forward ::
  "'r torch \<Rightarrow> 'r state \<Rightarrow> tensor \<Rightarrow> tensor \<times> bool list option \<times> 'r state" where
  "CNN_forward T s x =
     (let (dmask, r) = forward_mask T s;
          fm = conv T (params (model s)) dmask x;
          out = pool_head T (params (model s)) fm
      in (out, dmask, s\<lparr>model := (model s)\<lparr>last_feature_map := Some fm\<rparr>, rng := r\<rparr>))"

text \<open>\<^verbatim>\<open>model.zero_grad()\<close> resets the gradient buffers of the parameters.\<close>

definition zero_grad :: "'r state \<Rightarrow> 'r state" where
  "zero_grad s = s\<lparr>model := (model s)\<lparr>param_grads := None\<rparr>\<rparr>"

text \<open>A backward pass adds to a gradient buffer, or fills an empty one.\<close>

fun accumulate :: "real list option \<Rightarrow> real list \<Rightarrow> real list option" where
  "accumulate None g = Some g"
| "accumulate (Some a) g = Some (add_t a g)"

text \<open>\<^verbatim>\<open>loss.backward()\<close> for the loss of a forward pass on the tensor at address \<open>a\<close>,
  run with parameters \<open>p\<close> and mask \<open>dmask\<close>: it accumulates into the parameters' buffers
  and, when the input tensor requires gradients, into its \<^verbatim>\<open>.grad\<close>.\<close>

definition loss_backward ::
  "'r torch \<Rightarrow> loss \<Rightarrow> real list \<Rightarrow> bool list option \<Rightarrow> nat \<Rightarrow> int list \<Rightarrow> 'r state \<Rightarrow> 'r state" where
  "loss_backward T L p dmask a ys s =
     (let xo = heap s ! a;
          xv = value_of xo;
          gx = map (grad_input T L p dmask xv ys) [0..<length (elems xo)];
          gp = grad_params T L p dmask xv ys
      in s\<lparr>heap := (if requires_grad xo
                     then (heap s)[a := xo\<lparr>grad := accumulate (grad xo) gx\<rparr>]
                     else heap s),
            model := (model s)\<lparr>param_grads := accumulate (param_grads (model s)) gp\<rparr>\<rparr>)"

section \<open>FGSMAttack\<close>

record FGSMAttack =
  epsilon :: real
  loss_fn :: loss

text \<open>\<^verbatim>\<open>FGSMAttack.__init__\<close>: the loss defaults to cross entropy.\<close>

definition FGSMAttack_init :: "real \<Rightarrow> loss option \<Rightarrow> FGSMAttack" where
  "FGSMAttack_init eps l =
     \<lparr>epsilon = eps, loss_fn = (case l of None \<Rightarrow> CrossEntropyLoss | Some f \<Rightarrow> f)\<rparr>"

text \<open>
  \<^verbatim>\<open>FGSMAttack.perturb(x, y)\<close>, with \<open>x\<close> and \<open>y\<close> the addresses of the image batch and
  of the label batch. The clone is a new object; the forward pass, \<^verbatim>\<open>zero_grad\<close> and
  the backward pass follow; the result of \<^verbatim>\<open>torch.clamp\<close> is a new object again, whose
  address is returned. Reading \<^verbatim>\<open>x_adv.grad.data\<close> raises when the gradient is absent.
  The value of the loss is not computed: the code uses it only to start the backward
  pass, whose results are the gradient functions of the library record. The hooks of a
  \<^verbatim>\<open>GradCAM\<close> object attached to the classifier would fire in these passes too; the
  attacks are modelled without such an object.
\<close>

definition FGSM_perturb ::
  "'r torch \<Rightarrow> FGSMAttack \<Rightarrow> 'r state \<Rightarrow> nat \<Rightarrow> nat \<Rightarrow> error + (nat \<times> 'r state)" where
  "FGSM_perturb T atk s x y =
     (let xo = heap s ! x;
          x_adv = length (heap s);
          s0 = s\<lparr>heap := heap s @ [xo\<lparr>requires_grad := True, grad := None\<rparr>]\<rparr>;
          (outputs, dmask, s1) = CNN_forward T s0 (value_of (heap s0 ! x_adv));
          p = params (model s0);
          s2 = zero_grad s1;
          s3 = loss_backward T (FGSMAttack.loss_fn atk) p dmask x_adv (labels s ! y) s2
      in case grad (heap s3 ! x_adv) of
           None \<Rightarrow> Inl AttributeError
         | Some g \<Rightarrow>
             (let grad_sign = sign_t g;
                  x_adv1 = add_t (elems (heap s3 ! x_adv)) (scale_t (FGSMAttack.epsilon atk) grad_sign);
                  x_adv2 = clamp_t x_adv1 0 1
              in Inr (length (heap s3),
                      s3\<lparr>heap := heap s3 @
                          [\<lparr>dims = dims xo, elems = x_adv2, requires_grad = True, grad = None\<rparr>]\<rparr>)))"

section \<open>The single-step attack as the specification words it\<close>

text \<open>The sign of a gradient element, in \<open>{-1, 0, +1}\<close>, and clipping to an interval.\<close>

definition spec_sign :: "real \<Rightarrow> real" where
  "spec_sign g = (if g < 0 then - 1 else if g = 0 then 0 else 1)"

definition spec_clip :: "real \<Rightarrow> real \<Rightarrow> real \<Rightarrow> real" where
  "spec_clip v lo hi = (if v < lo then lo else if hi < v then hi else v)"

text \<open>\<open>x_adv = clip(x + \<epsilon> \<sqdot> sign(grad), 0, 1)\<close>, element by element.\<close>

definition spec_fgsm :: "real \<Rightarrow> real list \<Rightarrow> real list \<Rightarrow> real list" where
  "spec_fgsm eps x g = map (\<lambda>i. spec_clip (x ! i + eps * spec_sign (g ! i)) 0 1) [0..<length x]"

text \<open>The gradient of the loss with respect to the input \<open>xv\<close>, for the forward pass that
  a call made in state \<open>s\<close> performs.\<close>

definition input_gradient :: "'r torch \<Rightarrow> loss \<Rightarrow> 'r state \<Rightarrow> tensor \<Rightarrow> int list \<Rightarrow> real list" where
  "input_gradient T L s xv ys =
     map (grad_input T L (params (model s)) (fst (forward_mask T s)) xv ys) [0..<length (elems xv)]"

section \<open>BIMAttack\<close>

record BIMAttack =
  epsilon :: real
  alpha :: real
  iters :: int
  loss_fn :: loss

text \<open>\<^verbatim>\<open>BIMAttack.__init__\<close>.\<close>

definition BIMAttack_init :: "real \<Rightarrow> real \<Rightarrow> int \<Rightarrow> loss option \<Rightarrow> BIMAttack" where
  "BIMAttack_init eps a n l =
     \<lparr>epsilon = eps, alpha = a, iters = n,
      loss_fn = (case l of None \<Rightarrow> CrossEntropyLoss | Some f \<Rightarrow> f)\<rparr>"

text \<open>
  One run of the loop body of \<^verbatim>\<open>BIMAttack.perturb\<close>, on the pair of the address bound
  to \<^verbatim>\<open>x_adv\<close> and the state. The assignment \<^verbatim>\<open>x_adv.requires_grad = True\<close> updates
  the object in place; the detached result of the final \<^verbatim>\<open>torch.clamp\<close> is a new object.
\<close>

definition BIM_step ::
  "'r torch \<Rightarrow> BIMAttack \<Rightarrow> nat \<Rightarrow> nat \<Rightarrow> nat \<times> 'r state \<Rightarrow> error + (nat \<times> 'r state)" where
  "BIM_step T atk x y as =
     (let (x_adv, s) = as;
          s0 = s\<lparr>heap := (heap s)[x_adv := (heap s ! x_adv)\<lparr>requires_grad := True\<rparr>]\<rparr>;
          (outputs, dmask, s1) = CNN_forward T s0 (value_of (heap s0 ! x_adv));
          p = params (model s0);
          s2 = zero_grad s1;
          s3 = loss_backward T (BIMAttack.loss_fn atk) p dmask x_adv (labels s ! y) s2
      in case grad (heap s3 ! x_adv) of
           None \<Rightarrow> Inl AttributeError
         | Some g \<Rightarrow>
             (let grad_sign = sign_t g;
                  x_adv1 = add_t (elems (heap s3 ! x_adv)) (scale_t (alpha atk) grad_sign);
                  perturbation = clamp_t (sub_t x_adv1 (elems (heap s3 ! x)))
                                   (- BIMAttack.epsilon atk) (BIMAttack.epsilon atk);
                  x_adv2 = clamp_t (add_t (elems (heap s3 ! x)) perturbation) 0 1
              in Inr (length (heap s3),
                      s3\<lparr>heap := heap s3 @
                          [\<lparr>dims = dims (heap s3 ! x), elems = x_adv2,
                            requires_grad = False, grad = None\<rparr>]\<rparr>)))"

text \<open>The loop \<^verbatim>\<open>for _ in range(self.iters)\<close>: \<open>n\<close> runs of the body.\<close>

fun BIM_loop ::
  "'r torch \<Rightarrow> BIMAttack \<Rightarrow> nat \<Rightarrow> nat \<Rightarrow> nat \<Rightarrow> nat \<times> 'r state \<Rightarrow> error + (nat \<times> 'r state)" where
  "BIM_loop T atk x y 0 as = Inr as"
| "BIM_loop T atk x y (Suc n) as =
     (case BIM_step T atk x y as of
        Inl e \<Rightarrow> Inl e
      | Inr as' \<Rightarrow> BIM_loop T atk x y n as')"

text \<open>\<^verbatim>\<open>BIMAttack.perturb(x, y)\<close>: the detached clone of \<open>x\<close>, then the loop; a count
  below one runs the body no time, as \<^verbatim>\<open>range\<close> does.\<close>

definition BIM_start :: "'r state \<Rightarrow> nat \<Rightarrow> nat \<times> 'r state" where
  "BIM_start s x =
     (length (heap s), s\<lparr>heap := heap s @ [(heap s ! x)\<lparr>requires_grad := False, grad := None\<rparr>]\<rparr>)"

definition BIM_perturb ::
  "'r torch \<Rightarrow> BIMAttack \<Rightarrow> 'r state \<Rightarrow> nat \<Rightarrow> nat \<Rightarrow> error + (nat \<times> 'r state)" where
  "BIM_perturb T atk s x y = BIM_loop T atk x y (nat (iters atk)) (BIM_start s x)"

text \<open>The value of the tensor that a call returns.\<close>

definition output_of :: "error + (nat \<times> 'r state) \<Rightarrow> error + tensor" where
  "output_of r = (case r of Inl e \<Rightarrow> Inl e | Inr (a, s') \<Rightarrow> Inr (value_of (heap s' ! a)))"

text \<open>The classifier after a call.\<close>

definition model_after :: "error + (nat \<times> 'r state) \<Rightarrow> classifier option" where
  "model_after r = (case r of Inl e \<Rightarrow> None | Inr (a, s') \<Rightarrow> Some (model s'))"

text \<open>Two calls of \<^verbatim>\<open>FGSMAttack.perturb\<close> on the same arguments, one after the other, as
  the evaluation loop makes them; the result is the pair of the two returned tensors.\<close>

definition two_calls ::
  "'r torch \<Rightarrow> FGSMAttack \<Rightarrow> 'r state \<Rightarrow> nat \<Rightarrow> nat \<Rightarrow> error + (tensor \<times> tensor)" where
  "two_calls T atk s x y =
     (case FGSM_perturb T atk s x y of
        Inl e \<Rightarrow> Inl e
      | Inr (a, s1) \<Rightarrow>
          (case FGSM_perturb T atk s1 x y of
             Inl e \<Rightarrow> Inl e
           | Inr (b, s2) \<Rightarrow> Inr (value_of (heap s2 ! a), value_of (heap s2 ! b))))"

section \<open>Four-dimensional tensors\<close>

text \<open>
  The element of a tensor of shape \<open>(B, C, H, W)\<close> at \<open>[b, c, i, j]\<close>, in row-major order,
  and the tensor of a given shape whose element at \<open>[b, c, i, j]\<close> is \<open>f b c i j\<close>.
\<close>

definition at4 :: "tensor \<Rightarrow> nat \<Rightarrow> nat \<Rightarrow> nat \<Rightarrow> nat \<Rightarrow> real" where
  "at4 t b c i j = elems t ! (((b * (dims t ! 1) + c) * (dims t ! 2) + i) * (dims t ! 3) + j)"

definition build4 ::
  "nat \<Rightarrow> nat \<Rightarrow> nat \<Rightarrow> nat \<Rightarrow> (nat \<Rightarrow> nat \<Rightarrow> nat \<Rightarrow> nat \<Rightarrow> real) \<Rightarrow> tensor" where
  "build4 B C H W f =
     \<lparr>dims = [B, C, H, W],
      elems = map (\<lambda>k. f (k div W div H div C) (k div W div H mod C) (k div W mod H) (k mod W))
                [0..<B * C * H * W]\<rparr>"

text \<open>\<^verbatim>\<open>t.mean(dim=[2, 3], keepdim=True)\<close>: shape \<open>(B, C, 1, 1)\<close>. On an empty spatial
  extent the library yields NaN; no call below keeps such a result, since the resize
  that follows raises on an empty extent.\<close>

definition mean_hw :: "tensor \<Rightarrow> tensor" where
  "mean_hw G =
     (let H = dims G ! 2; W = dims G ! 3
      in build4 (dims G ! 0) (dims G ! 1) 1 1
           (\<lambda>b c i j. sum_list (map (\<lambda>i. sum_list (map (\<lambda>j. at4 G b c i j) [0..<W])) [0..<H])
                       / real (H * W)))"

text \<open>\<^verbatim>\<open>w * A\<close> for \<open>w\<close> of shape \<open>(B, C, 1, 1)\<close> and \<open>A\<close> of shape \<open>(B, C, H, W)\<close>: the weight
  of a channel is broadcast over its spatial positions.\<close>

definition mul_bc :: "tensor \<Rightarrow> tensor \<Rightarrow> tensor" where
  "mul_bc w A =
     build4 (dims A ! 0) (dims A ! 1) (dims A ! 2) (dims A ! 3)
       (\<lambda>b c i j. at4 w b c 0 0 * at4 A b c i j)"

text \<open>\<^verbatim>\<open>torch.sum(m, dim=1, keepdim=True)\<close>: shape \<open>(B, 1, H, W)\<close>.\<close>

definition sum_c :: "tensor \<Rightarrow> tensor" where
  "sum_c m =
     build4 (dims m ! 0) 1 (dims m ! 2) (dims m ! 3)
       (\<lambda>b c i j. sum_list (map (\<lambda>c. at4 m b c i j) [0..<dims m ! 1]))"

text \<open>\<^verbatim>\<open>F.relu\<close>.\<close>

definition relu_t :: "tensor \<Rightarrow> tensor" where
  "relu_t m = m\<lparr>elems := map (max 0) (elems m)\<rparr>"

text \<open>
  \<^verbatim>\<open>F.interpolate(m, size=sz, mode='bilinear', align_corners=False)\<close>, after the
  library's documented algorithm. For the output position \<open>k\<close> along an axis of input
  length \<open>n_in\<close> and output length \<open>n_out\<close>, the source coordinate is
  \<open>n_in / n_out \<sqdot> (k + 0.5) - 0.5\<close>, not below zero; its integer part, kept within the axis,
  and the next position, if there is one, are the two source positions, and its
  fractional part is the weight of the second. The library raises when an extent is
  empty, or when the number of sizes is not that of the spatial axes.
\<close>

definition source_index :: "nat \<Rightarrow> nat \<Rightarrow> nat \<Rightarrow> nat \<times> nat \<times> real" where
  "source_index n_in n_out k =
     (let src = max 0 (real n_in / real n_out * (real k + 1 / 2) - 1 / 2);
          i0 = min (nat \<lfloor>src\<rfloor>) (n_in - 1);
          i1 = i0 + (if i0 < n_in - 1 then 1 else 0);
          lam = min (max (src - real i0) 0) 1
      in (i0, i1, lam))"

definition interpolate_bilinear :: "tensor \<Rightarrow> nat list \<Rightarrow> error + tensor" where
  "interpolate_bilinear m sz =
     (case sz of
        [Ho, Wo] \<Rightarrow>
          (let h = dims m ! 2; w = dims m ! 3
           in if h = 0 \<or> w = 0 \<or> Ho = 0 \<or> Wo = 0 then Inl RuntimeError
              else Inr (build4 (dims m ! 0) (dims m ! 1) Ho Wo
                     (\<lambda>b c oy ox.
                        (case source_index h Ho oy of (i0, i1, lh) \<Rightarrow>
                         case source_index w Wo ox of (j0, j1, lw) \<Rightarrow>
                           (1 - lh) * ((1 - lw) * at4 m b c i0 j0 + lw * at4 m b c i0 j1)
                           + lh * ((1 - lw) * at4 m b c i1 j0 + lw * at4 m b c i1 j1)))))
      | _ \<Rightarrow> Inl RuntimeError)"

text \<open>\<^verbatim>\<open>m.min()\<close> and \<^verbatim>\<open>m.max()\<close> over all elements; they raise on an empty tensor.\<close>

definition min_t :: "tensor \<Rightarrow> error + real" where
  "min_t m = (case elems m of [] \<Rightarrow> Inl RuntimeError | v # vs \<Rightarrow> Inr (fold min vs v))"

definition max_t :: "tensor \<Rightarrow> error + real" where
  "max_t m = (case elems m of [] \<Rightarrow> Inl RuntimeError | v # vs \<Rightarrow> Inr (fold max vs v))"

text \<open>
  The last statement of \<^verbatim>\<open>generate\<close>:
  \<^verbatim>\<open>(m - m.min()) / (m.max() - m.min() + 1e-8)\<close>. Division in HOL is total, with
  \<open>v / 0 = 0\<close>, where the library yields NaN or an infinity; the zero divisor is therefore
  a result of its own, \<open>NotANumber\<close>.
\<close>

definition normalize_t :: "tensor \<Rightarrow> error + tensor" where
  "normalize_t m =
     (case min_t m of
        Inl e \<Rightarrow> Inl e
      | Inr lo \<Rightarrow>
          (case max_t m of
             Inl e \<Rightarrow> Inl e
           | Inr hi \<Rightarrow>
               if hi - lo + 1 / 10 ^ 8 = 0 then Inl NotANumber
               else Inr (m\<lparr>elems := map (\<lambda>v. (v - lo) / (hi - lo + 1 / 10 ^ 8)) (elems m)\<rparr>)))"

section \<open>GradCAM\<close>

record GradCAM =
  target_layer :: nat
  gradients :: "tensor option"
  activations :: "tensor option"

text \<open>\<^verbatim>\<open>GradCAM.__init__\<close>; the two hooks that \<^verbatim>\<open>_register_hooks\<close> installs act in
  \<open>GradCAM_generate\<close>, where the passes run.\<close>

definition GradCAM_init :: "nat \<Rightarrow> GradCAM" where
  "GradCAM_init l = \<lparr>target_layer = l, gradients = None, activations = None\<rparr>"

text \<open>\<^verbatim>\<open>output[0, target_class]\<close> on scores of shape \<open>ds\<close>: the class index counted from the
  start, negative indices counting from the end. Scores with fewer than two axes cannot
  be indexed so; with more than two the entry is no scalar and \<^verbatim>\<open>backward\<close> raises.\<close>

definition score_index :: "nat list \<Rightarrow> int \<Rightarrow> error + nat" where
  "score_index ds t =
     (case ds of
        [B, K] \<Rightarrow>
          if 0 < B \<and> - int K \<le> t \<and> t < int K
          then Inr (nat (if t < 0 then t + int K else t))
          else Inl IndexError
      | [] \<Rightarrow> Inl IndexError
      | [B] \<Rightarrow> Inl IndexError
      | _ \<Rightarrow> Inl RuntimeError)"

text \<open>
  The statements of \<^verbatim>\<open>generate\<close> after the backward pass, on the captured tensors.
  \<^verbatim>\<open>self.gradients.mean\<close> raises AttributeError on \<open>None\<close> and IndexError on fewer than
  four axes; \<^verbatim>\<open>weights * self.activations\<close> raises TypeError on \<open>None\<close>. The two hooks of one
  layer capture tensors of one shape in one pass; captured tensors of other shapes
  (which the library would broadcast or reject) are not modelled and appear as
  RuntimeError.
\<close>

definition cam_of :: "GradCAM \<Rightarrow> nat list \<Rightarrow> error + tensor" where
  "cam_of g image_dims =
     (case gradients g of
        None \<Rightarrow> Inl AttributeError
      | Some G \<Rightarrow>
          if length (dims G) < 4 then Inl IndexError
          else
            (case activations g of
               None \<Rightarrow> Inl TypeError
             | Some A \<Rightarrow>
                 if length (dims G) \<noteq> 4 \<or> dims A \<noteq> dims G then Inl RuntimeError
                 else
                   (let weights = mean_hw G;
                        grad_cam_map = sum_c (mul_bc weights A);
                        grad_cam_map = relu_t grad_cam_map
                    in case interpolate_bilinear grad_cam_map (drop 2 image_dims) of
                         Inl e \<Rightarrow> Inl e
                       | Inr grad_cam_map \<Rightarrow> normalize_t grad_cam_map)))"

text \<open>
  \<^verbatim>\<open>GradCAM.generate(input_image, target_class)\<close>. The forward pass fires the forward
  hook, the backward pass of the one score the backward hook, each only if the pass runs
  through the target layer. The result is the map or the exception, together with the
  \<^verbatim>\<open>GradCAM\<close> object and the state as the call leaves them.
\<close>

definition GradCAM_generate ::
  "'r torch \<Rightarrow> GradCAM \<Rightarrow> 'r state \<Rightarrow> tensor \<Rightarrow> int \<Rightarrow> (error + tensor) \<times> GradCAM \<times> 'r state" where
  "GradCAM_generate T g s input_image target_class =
     (let s0 = zero_grad s;
          (output, dmask, s1) = CNN_forward T s0 input_image;
          p = params (model s0);
          captured = layer_output T (target_layer g) p dmask input_image;
          g1 = (case captured of None \<Rightarrow> g | Some a \<Rightarrow> g\<lparr>activations := Some a\<rparr>)
      in case score_index (dims output) target_class of
           Inl e \<Rightarrow> (Inl e, g1, s1)
         | Inr t \<Rightarrow>
             (let s2 = s1\<lparr>model := (model s1)\<lparr>param_grads :=
                          accumulate (param_grads (model s1))
                            (score_grad_params T p dmask input_image t)\<rparr>\<rparr>;
                  g2 = (case captured of
                          None \<Rightarrow> g1
                        | Some a \<Rightarrow>
                            g1\<lparr>gradients := Some (layer_grad T (target_layer g) p dmask input_image t)\<rparr>)
              in (cam_of g2 (dims input_image), g2, s2)))"

text \<open>
  What one pass of the classifier on \<open>x\<close> in state \<open>s\<close> computes: the class scores, what
  the forward hook of the \<^verbatim>\<open>GradCAM\<close> object receives, and what its backward hook
  receives when class score \<open>k\<close> is backpropagated.
\<close>

definition scores :: "'r torch \<Rightarrow> 'r state \<Rightarrow> tensor \<Rightarrow> tensor" where
  "scores T s x =
     pool_head T (params (model s)) (conv T (params (model s)) (fst (forward_mask T s)) x)"

definition hook_output :: "'r torch \<Rightarrow> GradCAM \<Rightarrow> 'r state \<Rightarrow> tensor \<Rightarrow> tensor option" where
  "hook_output T g s x = layer_output T (target_layer g) (params (model s)) (fst (forward_mask T s)) x"

definition hook_grad :: "'r torch \<Rightarrow> GradCAM \<Rightarrow> 'r state \<Rightarrow> tensor \<Rightarrow> nat \<Rightarrow> tensor" where
  "hook_grad T g s x k = layer_grad T (target_layer g) (params (model s)) (fst (forward_mask T s)) x k"

section \<open>The activation map as the specification words it\<close>

text \<open>
  The weight of a channel is the mean of the captured gradient over height and width;
  the map is the sum over the channels of weight times captured activation, with negative
  values set to zero; it is resized to the spatial resolution of the input and then
  normalized by \<open>(m - min) / (max - min + 10\<^sup>-\<^sup>8)\<close>.
\<close>

definition spec_weight :: "tensor \<Rightarrow> nat \<Rightarrow> nat \<Rightarrow> real" where
  "spec_weight G b c =
     (\<Sum>i<dims G ! 2. \<Sum>j<dims G ! 3. at4 G b c i j) / real (dims G ! 2 * dims G ! 3)"

definition spec_map :: "tensor \<Rightarrow> tensor \<Rightarrow> nat \<Rightarrow> nat \<Rightarrow> nat \<Rightarrow> real" where
  "spec_map G A b i j = max 0 (\<Sum>c<dims A ! 1. spec_weight G b c * at4 A b c i j)"

definition spec_normalize :: "real list \<Rightarrow> real list" where
  "spec_normalize vs =
     map (\<lambda>v. (v - Min (set vs)) / (Max (set vs) - Min (set vs) + 1 / 10 ^ 8)) vs"

definition spec_gradcam :: "tensor \<Rightarrow> tensor \<Rightarrow> nat list \<Rightarrow> error + tensor" where
  "spec_gradcam G A image_dims =
     (case interpolate_bilinear
             (build4 (dims A ! 0) 1 (dims A ! 2) (dims A ! 3) (\<lambda>b c i j. spec_map G A b i j))
             (drop 2 image_dims) of
        Inl e \<Rightarrow> Inl e
      | Inr m \<Rightarrow> Inr (m\<lparr>elems := spec_normalize (elems m)\<rparr>))"

section \<open>The loop invariant of the iterative attack\<close>

text \<open>
  \<open>bim_update\<close> is the arithmetic of one loop body on element lists: the original input,
  the current iterate and its gradient. \<open>bim_inv\<close> relates the address bound to
  \<^verbatim>\<open>x_adv\<close> and the state to the heap \<open>H0\<close> at the call: \<^verbatim>\<open>x_adv\<close> is an object allocated
  by the call, without gradient, of the length of the input, and the objects of \<open>H0\<close>
  are as they were.
\<close>

definition bim_update :: "real \<Rightarrow> real \<Rightarrow> real list \<Rightarrow> real list \<Rightarrow> real list \<Rightarrow> real list" where
  "bim_update eps al xs cur g =
     clamp_t (add_t xs (clamp_t (sub_t (add_t cur (scale_t al (sign_t g))) xs) (- eps) eps)) 0 1"

definition bim_inv :: "tobj list \<Rightarrow> nat \<Rightarrow> nat \<times> 'r state \<Rightarrow> bool" where
  "bim_inv H0 x as =
     (case as of (a, s) \<Rightarrow>
        length H0 \<le> a \<and> a < length (heap s) \<and> take (length H0) (heap s) = H0 \<and>
        grad (heap s ! a) = None \<and> length (elems (heap s ! a)) = length (elems (H0 ! x)))"

section \<open>A small classifier for concrete runs\<close>

text \<open>
  An instance of the library record on which the operations can be run: one dropout layer
  with drop probability \<open>0.2\<close> followed by a linear score, \<open>score = \<Sum>\<^sub>i p\<^sub>i \<sqdot> dropout(x)\<^sub>i\<close>,
  with the score itself as the loss. The gradient of the loss with respect to the input
  is the kept and rescaled weight vector. The random generator is a tape of the masks
  still to be drawn. The layer handle \<open>0\<close> is the dropout layer, with a feature map of
  shape \<open>(1, 1, 1, n)\<close>; any other handle is a layer the classifier does not contain.
\<close>

definition dropout :: "bool list option \<Rightarrow> real list \<Rightarrow> real list" where
  "dropout dmask v =
     (case dmask of
        None \<Rightarrow> v
      | Some m \<Rightarrow> map2 (\<lambda>keep a. if keep then a / (1 - 2 / 10) else 0) m v)"

definition toy_torch :: "(bool list list) torch" where
  "toy_torch =
     \<lparr>conv = (\<lambda>p dmask x. x\<lparr>elems := dropout dmask (elems x)\<rparr>),
      pool_head = (\<lambda>p fm. \<lparr>dims = [1, 1], elems = [sum_list (map2 (*) p (elems fm))]\<rparr>),
      dropout_mask = (\<lambda>r. case r of [] \<Rightarrow> ([], []) | m # ms \<Rightarrow> (m, ms)),
      grad_input = (\<lambda>L p dmask x ys i. dropout dmask p ! i),
      grad_params = (\<lambda>L p dmask x ys. dropout dmask (elems x)),
      score_grad_params = (\<lambda>p dmask x t. dropout dmask (elems x)),
      layer_output = (\<lambda>l p dmask x.
         if l = 0 then Some \<lparr>dims = [1, 1, 1, length (elems x)], elems = dropout dmask (elems x)\<rparr>
         else None),
      layer_grad = (\<lambda>l p dmask x t.
         \<lparr>dims = [1, 1, 1, length (elems x)], elems = take (length (elems x)) p\<rparr>)\<rparr>"

text \<open>The weights, whose signs are the sign pattern of the input gradient.\<close>

definition toy_pattern :: "real list" where
  "toy_pattern = [2, - 3, 0, 1 / 2, - 1, - 1, 4, 0, 0, 7, - 1 / 3, 5, - 2, 1, 1, - 6]"

text \<open>A state with one \<open>1\<times>1\<times>4\<times>4\<close> image whose elements are all \<open>0.5\<close>, the label \<open>0\<close>, and
  the classifier in evaluation mode.\<close>

definition toy_state :: "(bool list list) state" where
  "toy_state =
     \<lparr>heap = [\<lparr>dims = [1, 1, 4, 4], elems = replicate 16 (1 / 2),
               requires_grad = False, grad = None\<rparr>],
      labels = [[0]],
      model = \<lparr>params = toy_pattern, param_grads = None, last_feature_map = None,
               training = False\<rparr>,
      rng = []\<rparr>"

text \<open>The same state with the classifier in training mode and two masks on the tape: the
  first keeps every element, the second drops every element.\<close>

definition toy_train_state :: "(bool list list) state" where
  "toy_train_state =
     toy_state\<lparr>model := (model toy_state)\<lparr>training := True\<rparr>,
               rng := [replicate 16 True, replicate 16 False]\<rparr>"

text \<open>A state whose image has elements outside \<open>[0, 1]\<close>.\<close>

definition toy_wild_state :: "(bool list list) state" where
  "toy_wild_state =
     toy_state\<lparr>heap := [\<lparr>dims = [1, 1, 1, 3], elems = [- 2, 3, 1 / 2],
                          requires_grad = False, grad = None\<rparr>]\<rparr>"

text \<open>A \<open>1\<times>1\<times>2\<times>2\<close> image, and states whose weights make the gradient captured at layer \<open>0\<close>
  positive, and zero.\<close>

definition toy_image :: tensor where
  "toy_image = \<lparr>dims = [1, 1, 2, 2], elems = [1 / 2, 1 / 4, 0, 1]\<rparr>"

definition toy_cam_state :: "(bool list list) state" where
  "toy_cam_state = toy_state\<lparr>model := (model toy_state)\<lparr>params := [1, 2, 3, 2]\<rparr>\<rparr>"

definition toy_zero_state :: "(bool list list) state" where
  "toy_zero_state = toy_state\<lparr>model := (model toy_state)\<lparr>params := [0, 0, 0, 0]\<rparr>\<rparr>"

section \<open>Auxiliary facts\<close>

lemma value_of_simps [simp]: "elems (value_of t) = elems t" "dims (value_of t) = dims t"
  by (simp_all add: value_of_def)

lemma forward_mask_heap [simp]: "forward_mask T (s\<lparr>heap := h\<rparr>) = forward_mask T s"
  by (simp add: forward_mask_def)

lemma upt16: "[0..<16] = [0, 1, 2, 3, 4, 5, 6, 7, 8, 9, 10, 11, 12, 13, 14, 15]"
  by (simp add: upt_rec)

subsection \<open>The state after the single-step attack\<close>

lemma FGSM_perturb_result:
  assumes "x < length (heap s)"
  shows "FGSM_perturb T atk s x y =
    Inr (Suc (length (heap s)),
         s\<lparr>heap := heap s @
              [(heap s ! x)\<lparr>requires_grad := True,
                  grad := Some (input_gradient T (FGSMAttack.loss_fn atk) s
                                  (value_of (heap s ! x)) (labels s ! y))\<rparr>,
               \<lparr>dims = dims (heap s ! x),
                elems = clamp_t (add_t (elems (heap s ! x))
                          (scale_t (FGSMAttack.epsilon atk)
                             (sign_t (input_gradient T (FGSMAttack.loss_fn atk) s
                                        (value_of (heap s ! x)) (labels s ! y))))) 0 1,
                requires_grad = True, grad = None\<rparr>],
           model := (model s)\<lparr>last_feature_map :=
                        Some (conv T (params (model s)) (fst (forward_mask T s))
                                (value_of (heap s ! x))),
                      param_grads := Some (grad_params T (FGSMAttack.loss_fn atk)
                          (params (model s)) (fst (forward_mask T s))
                          (value_of (heap s ! x)) (labels s ! y))\<rparr>,
           rng := snd (forward_mask T s)\<rparr>)"
  using assms
  by (simp add: FGSM_perturb_def CNN_forward_def zero_grad_def loss_backward_def Let_def
      input_gradient_def value_of_def nth_append split_def)

lemma spec_clip_clamp: "lo \<le> hi \<Longrightarrow> spec_clip v lo hi = clamp v lo hi"
  by (auto simp: spec_clip_def clamp_def)

lemma spec_sign_sgn: "spec_sign g = sgn g"
  by (simp add: spec_sign_def sgn_real_def)

lemma spec_fgsm_eq:
  "length g = length x \<Longrightarrow> spec_fgsm eps x g = clamp_t (add_t x (scale_t eps (sign_t g))) 0 1"
  by (rule nth_equalityI)
    (simp_all add: spec_fgsm_def clamp_t_def add_t_def scale_t_def sign_t_def
      spec_clip_clamp spec_sign_sgn)

subsection \<open>Outputs of the single-step attack\<close>

lemma output_of_Inr [simp]: "output_of (Inr (a, s')) = Inr (value_of (heap s' ! a))"
  by (simp add: output_of_def)

lemma FGSM_output:
  assumes "x < length (heap s)"
  shows "output_of (FGSM_perturb T atk s x y) =
     Inr \<lparr>dims = dims (heap s ! x),
          elems = clamp_t (add_t (elems (heap s ! x))
                          (scale_t (FGSMAttack.epsilon atk)
                             (sign_t (input_gradient T (FGSMAttack.loss_fn atk) s
                                        (value_of (heap s ! x)) (labels s ! y))))) 0 1\<rparr>"
  using assms by (simp add: FGSM_perturb_result nth_append value_of_def)

lemma forward_mask_eval: "\<not> training (model s) \<Longrightarrow> forward_mask T s = (None, rng s)"
  by (simp add: forward_mask_def)

lemma input_gradient_heap [simp]:
  "input_gradient T L (s\<lparr>heap := h\<rparr>) xv ys = input_gradient T L s xv ys"
  by (simp add: input_gradient_def)

lemma length_input_gradient [simp]: "length (input_gradient T L s xv ys) = length (elems xv)"
  by (simp add: input_gradient_def)

lemma input_gradient_cong:
  "params (model s') = params (model s) \<Longrightarrow> fst (forward_mask T s') = fst (forward_mask T s) \<Longrightarrow>
   input_gradient T L s' xv ys = input_gradient T L s xv ys"
  by (simp add: input_gradient_def)

lemma two_calls_result:
  assumes "x < length (heap s)"
  shows "two_calls T atk s x y =
     Inr (\<lparr>dims = dims (heap s ! x),
           elems = clamp_t (add_t (elems (heap s ! x))
                    (scale_t (FGSMAttack.epsilon atk)
                       (sign_t (input_gradient T (FGSMAttack.loss_fn atk) s
                                  (value_of (heap s ! x)) (labels s ! y))))) 0 1\<rparr>,
          \<lparr>dims = dims (heap s ! x),
           elems = clamp_t (add_t (elems (heap s ! x))
                    (scale_t (FGSMAttack.epsilon atk)
                       (sign_t (input_gradient T (FGSMAttack.loss_fn atk)
                                  (s\<lparr>rng := snd (forward_mask T s)\<rparr>)
                                  (value_of (heap s ! x)) (labels s ! y))))) 0 1\<rparr>)"
proof -
  let ?s1 = "snd (projr (FGSM_perturb T atk s x y))"
  have g: "input_gradient T L
      (s\<lparr>heap := h, model := (model s)\<lparr>last_feature_map := f, param_grads := pg\<rparr>, rng := r\<rparr>) xv ys =
      input_gradient T L (s\<lparr>rng := r\<rparr>) xv ys" for L h f pg r xv ys
    by (simp add: input_gradient_def forward_mask_def)
  show ?thesis
    using assms
    by (simp add: two_calls_def FGSM_perturb_result nth_append value_of_def g)
qed

lemma classifier_frame:
  fixes m m' :: classifier
  shows "params m' = params m \<Longrightarrow> training m' = training m \<Longrightarrow>
   m' = m\<lparr>param_grads := param_grads m', last_feature_map := last_feature_map m'\<rparr>"
  by (cases m, cases m') simp

lemma FGSM_frame:
  assumes "x < length (heap s)"
  shows "\<exists>a s'. FGSM_perturb T atk s x y = Inr (a, s') \<and>
           length (heap s) \<le> a \<and> a < length (heap s') \<and>
           take (length (heap s)) (heap s') = heap s \<and> labels s' = labels s \<and>
           model s' = (model s)\<lparr>param_grads := param_grads (model s'),
                                 last_feature_map := last_feature_map (model s')\<rparr> \<and>
           (\<not> training (model s) \<longrightarrow> rng s' = rng s)"
  using assms by (simp add: FGSM_perturb_result forward_mask_eval)

subsection \<open>Element-wise arithmetic\<close>

lemma clamp_unit: "0 \<le> clamp v 0 1" "clamp v 0 1 \<le> 1"
  by (simp_all add: clamp_def)

lemma clamp_budget:
  assumes "0 \<le> eps" "0 \<le> v" "v \<le> 1"
  shows "\<bar>clamp (v + clamp d (- eps) eps) 0 1 - v\<bar> \<le> eps"
  using assms by (auto simp: clamp_def min_def max_def abs_real_def)

lemma sgn_step: "0 \<le> eps \<Longrightarrow> clamp (eps * sgn (g::real)) (- eps) eps = eps * sgn g"
  by (auto simp: clamp_def sgn_real_def)

lemma fgsm_nth:
  assumes "length g = length xs" "i < length xs"
  shows "clamp_t (add_t xs (scale_t eps (sign_t g))) 0 1 ! i = clamp (xs ! i + eps * sgn (g ! i)) 0 1"
  using assms by (simp add: clamp_t_def add_t_def scale_t_def sign_t_def)

lemma fgsm_budget:
  assumes "0 \<le> eps" "0 \<le> v" "v \<le> 1"
  shows "\<bar>clamp (v + eps * sgn (g::real)) 0 1 - v\<bar> \<le> eps"
  using assms by (auto simp: clamp_def min_def max_def abs_real_def sgn_real_def)

lemma fgsm_bounds:
  assumes "length g = length xs" "0 \<le> eps" "list_all (\<lambda>v. 0 \<le> v \<and> v \<le> 1) xs"
  shows "list_all2 (\<lambda>v a. \<bar>a - v\<bar> \<le> eps \<and> 0 \<le> a \<and> a \<le> 1) xs
           (clamp_t (add_t xs (scale_t eps (sign_t g))) 0 1)"
  using assms
  by (auto simp: list_all2_conv_all_nth fgsm_nth clamp_unit list_all_length clamp_t_def add_t_def
      scale_t_def sign_t_def intro!: fgsm_budget)

lemma fgsm_zero:
  assumes "length g = length xs" "list_all (\<lambda>v. 0 \<le> v \<and> v \<le> 1) xs"
  shows "clamp_t (add_t xs (scale_t 0 (sign_t g))) 0 1 = xs"
  using assms
  by (intro nth_equalityI)
    (auto simp: fgsm_nth list_all_length clamp_def clamp_t_def add_t_def scale_t_def sign_t_def)

lemma length_bim_update [simp]:
  "length cur = length xs \<Longrightarrow> length g = length xs \<Longrightarrow> length (bim_update eps al xs cur g) = length xs"
  by (simp add: bim_update_def clamp_t_def add_t_def sub_t_def scale_t_def sign_t_def)

lemma bim_update_nth:
  assumes "length cur = length xs" "length g = length xs" "i < length xs"
  shows "bim_update eps al xs cur g ! i =
           clamp (xs ! i + clamp (cur ! i + al * sgn (g ! i) - xs ! i) (- eps) eps) 0 1"
  using assms by (simp add: bim_update_def clamp_t_def add_t_def sub_t_def scale_t_def sign_t_def)

lemma bim_update_bounds:
  assumes "length cur = length xs" "length g = length xs" "0 \<le> eps"
    "list_all (\<lambda>v. 0 \<le> v \<and> v \<le> 1) xs"
  shows "list_all2 (\<lambda>v a. \<bar>a - v\<bar> \<le> eps \<and> 0 \<le> a \<and> a \<le> 1) xs (bim_update eps al xs cur g)"
  using assms
  by (auto simp: list_all2_conv_all_nth bim_update_nth clamp_unit list_all_length intro!: clamp_budget)

lemma bim_update_range: "list_all (\<lambda>a. 0 \<le> a \<and> a \<le> 1) (bim_update eps al xs cur g)"
  by (simp add: bim_update_def clamp_t_def list_all_iff clamp_unit)

lemma bim_update_single:
  assumes "length g = length xs" "0 \<le> eps"
  shows "bim_update eps eps xs xs g = clamp_t (add_t xs (scale_t eps (sign_t g))) 0 1"
proof (rule nth_equalityI)
  show "length (bim_update eps eps xs xs g) = length (clamp_t (add_t xs (scale_t eps (sign_t g))) 0 1)"
    using assms by (simp add: clamp_t_def add_t_def scale_t_def sign_t_def)
next
  fix i assume "i < length (bim_update eps eps xs xs g)"
  then have i: "i < length xs" using assms by simp
  show "bim_update eps eps xs xs g ! i = clamp_t (add_t xs (scale_t eps (sign_t g))) 0 1 ! i"
    using assms i by (simp add: bim_update_nth fgsm_nth sgn_step)
qed

subsection \<open>The loop of the iterative attack\<close>

lemma BIM_step_result:
  assumes "a < length (heap s)" "x < length (heap s)" "a \<noteq> x" "grad (heap s ! a) = None"
  shows "BIM_step T atk x y (a, s) =
    Inr (length (heap s),
         s\<lparr>heap := (heap s)[a := (heap s ! a)\<lparr>requires_grad := True,
                  grad := Some (input_gradient T (BIMAttack.loss_fn atk) s (value_of (heap s ! a)) (labels s ! y))\<rparr>] @
               [\<lparr>dims = dims (heap s ! x),
                 elems = bim_update (BIMAttack.epsilon atk) (alpha atk) (elems (heap s ! x)) (elems (heap s ! a))
                           (input_gradient T (BIMAttack.loss_fn atk) s (value_of (heap s ! a)) (labels s ! y)),
                 requires_grad = False, grad = None\<rparr>],
           model := (model s)\<lparr>last_feature_map :=
                        Some (conv T (params (model s)) (fst (forward_mask T s)) (value_of (heap s ! a))),
                      param_grads := Some (grad_params T (BIMAttack.loss_fn atk) (params (model s))
                          (fst (forward_mask T s)) (value_of (heap s ! a)) (labels s ! y))\<rparr>,
           rng := snd (forward_mask T s)\<rparr>)"
  using assms
  by (simp add: BIM_step_def CNN_forward_def zero_grad_def loss_backward_def Let_def
      input_gradient_def value_of_def nth_append split_def bim_update_def)

lemma BIM_start_inv: "x < length (heap s) \<Longrightarrow> bim_inv (heap s) x (BIM_start s x)"
  by (simp add: bim_inv_def BIM_start_def nth_append)

lemma BIM_step_inv:
  assumes "bim_inv H0 x (a, s)" "x < length H0"
  shows "\<exists>a' s'. BIM_step T atk x y (a, s) = Inr (a', s') \<and> bim_inv H0 x (a', s') \<and>
           value_of (heap s' ! a') =
             \<lparr>dims = dims (H0 ! x),
              elems = bim_update (BIMAttack.epsilon atk) (alpha atk) (elems (H0 ! x)) (elems (heap s ! a))
                           (input_gradient T (BIMAttack.loss_fn atk) s (value_of (heap s ! a)) (labels s ! y))\<rparr> \<and>
           labels s' = labels s \<and> params (model s') = params (model s) \<and>
           training (model s') = training (model s) \<and> rng s' = snd (forward_mask T s)"
proof -
  from assms have a: "a < length (heap s)" "x < length (heap s)" "a \<noteq> x" "grad (heap s ! a) = None"
    and tk: "take (length H0) (heap s) = H0" and la: "length H0 \<le> a"
    and len: "length (elems (heap s ! a)) = length (elems (H0 ! x))"
    by (auto simp: bim_inv_def)
  have hx: "heap s ! x = H0 ! x" using tk assms(2) by (metis nth_take)
  show ?thesis
    using a tk la len assms(2)
    by (simp add: BIM_step_result [OF a] bim_inv_def nth_append hx value_of_def)
qed

lemma BIM_loop_last:
  assumes "bim_inv H0 x (a, s)" "x < length H0"
  shows "\<exists>a0 s0 a' s'. BIM_loop T atk x y (Suc n) (a, s) = Inr (a', s') \<and>
           bim_inv H0 x (a0, s0) \<and> BIM_step T atk x y (a0, s0) = Inr (a', s') \<and>
           bim_inv H0 x (a', s') \<and>
           labels s' = labels s \<and> params (model s') = params (model s) \<and>
           training (model s') = training (model s) \<and>
           (\<not> training (model s) \<longrightarrow> rng s' = rng s)"
  using assms(1)
proof (induction n arbitrary: a s)
  case 0
  from BIM_step_inv [OF 0 assms(2), of T atk y]
  obtain a1 s1 where st: "BIM_step T atk x y (a, s) = Inr (a1, s1)" and inv: "bim_inv H0 x (a1, s1)"
    and fr: "labels s1 = labels s" "params (model s1) = params (model s)"
      "training (model s1) = training (model s)" "rng s1 = snd (forward_mask T s)"
    by blast
  have fr': "\<not> training (model s) \<longrightarrow> rng s1 = rng s"
    using fr(4) by (simp add: forward_mask_eval)
  have "BIM_loop T atk x y (Suc 0) (a, s) = Inr (a1, s1)"
    using st by simp
  with 0 st inv fr(1-3) fr' show ?case by blast
next
  case (Suc n)
  from BIM_step_inv [OF Suc.prems assms(2), of T atk y]
  obtain a1 s1 where st: "BIM_step T atk x y (a, s) = Inr (a1, s1)" and inv: "bim_inv H0 x (a1, s1)"
    and fr: "labels s1 = labels s" "params (model s1) = params (model s)"
      "training (model s1) = training (model s)" "rng s1 = snd (forward_mask T s)"
    by blast
  have fr': "\<not> training (model s) \<longrightarrow> rng s1 = rng s"
    using fr(4) by (simp add: forward_mask_eval)
  from Suc.IH [OF inv] obtain a0 s0 a' s' where
    "BIM_loop T atk x y (Suc n) (a1, s1) = Inr (a', s')" "bim_inv H0 x (a0, s0)"
    "BIM_step T atk x y (a0, s0) = Inr (a', s')" "bim_inv H0 x (a', s')"
    "labels s' = labels s1" "params (model s') = params (model s1)"
    "training (model s') = training (model s1)"
    "\<not> training (model s1) \<longrightarrow> rng s' = rng s1"
    by blast
  moreover have "BIM_loop T atk x y (Suc (Suc n)) (a, s) = BIM_loop T atk x y (Suc n) (a1, s1)"
    using st by simp
  ultimately show ?case using fr(1-3) fr' by (metis (no_types))
qed

lemma BIM_loop_add:
  "BIM_loop T atk x y (k + m) as =
     (case BIM_loop T atk x y k as of Inl e \<Rightarrow> Inl e | Inr as' \<Rightarrow> BIM_loop T atk x y m as')"
  by (induction k arbitrary: as) (auto split: sum.splits)

lemma BIM_output_range:
  assumes "x < length (heap s)" "1 \<le> iters atk"
  shows "\<exists>t. output_of (BIM_perturb T atk s x y) = Inr t \<and>
           list_all (\<lambda>w. 0 \<le> w \<and> w \<le> 1) (elems t)"
proof -
  obtain n where n: "nat (iters atk) = Suc n" using assms(2) by (cases "nat (iters atk)") auto
  obtain a0 s0 where st: "BIM_start s x = (a0, s0)" by (cases "BIM_start s x")
  have inv0: "bim_inv (heap s) x (a0, s0)" using BIM_start_inv [OF assms(1)] st by simp
  from BIM_loop_last [OF inv0 assms(1), of T atk y n]
  obtain a1 s1 a' s' where
    loop: "BIM_loop T atk x y (Suc n) (a0, s0) = Inr (a', s')"
    and inv1: "bim_inv (heap s) x (a1, s1)"
    and step: "BIM_step T atk x y (a1, s1) = Inr (a', s')"
    by blast
  from BIM_step_inv [OF inv1 assms(1), of T atk y] step
  have "value_of (heap s' ! a') =
      \<lparr>dims = dims (heap s ! x),
       elems = bim_update (BIMAttack.epsilon atk) (alpha atk) (elems (heap s ! x)) (elems (heap s1 ! a1))
        (input_gradient T (BIMAttack.loss_fn atk) s1 (value_of (heap s1 ! a1)) (labels s1 ! y))\<rparr>"
    by auto
  then show ?thesis
    using loop st n by (simp add: BIM_perturb_def bim_update_range)
qed

lemma BIM_single_output:
  assumes "x < length (heap s)" "iters atk = 1"
  shows "output_of (BIM_perturb T atk s x y) =
     Inr \<lparr>dims = dims (heap s ! x),
          elems = bim_update (BIMAttack.epsilon atk) (alpha atk) (elems (heap s ! x)) (elems (heap s ! x))
                    (input_gradient T (BIMAttack.loss_fn atk) s (value_of (heap s ! x)) (labels s ! y))\<rparr>"
proof -
  have inv0: "bim_inv (heap s) x (length (heap s),
      s\<lparr>heap := heap s @ [(heap s ! x)\<lparr>requires_grad := False, grad := None\<rparr>]\<rparr>)"
    using BIM_start_inv [OF assms(1)] by (simp add: BIM_start_def)
  from BIM_step_inv [OF inv0 assms(1), of T atk y]
  show ?thesis
    using assms by (auto simp: BIM_perturb_def BIM_start_def value_of_def)
qed

lemma BIM_frame:
  assumes "x < length (heap s)"
  shows "\<exists>a s'. BIM_perturb T atk s x y = Inr (a, s') \<and>
           length (heap s) \<le> a \<and> a < length (heap s') \<and>
           take (length (heap s)) (heap s') = heap s \<and> labels s' = labels s \<and>
           model s' = (model s)\<lparr>param_grads := param_grads (model s'),
                                 last_feature_map := last_feature_map (model s')\<rparr> \<and>
           (\<not> training (model s) \<longrightarrow> rng s' = rng s)"
proof (cases "nat (iters atk)")
  case 0
  then show ?thesis
    using assms by (simp add: BIM_perturb_def BIM_start_def)
next
  case (Suc n)
  have inv0: "bim_inv (heap s) x (length (heap s),
      s\<lparr>heap := heap s @ [(heap s ! x)\<lparr>requires_grad := False, grad := None\<rparr>]\<rparr>)"
    (is "bim_inv _ _ (_, ?s0)")
    using BIM_start_inv [OF assms(1)] by (simp add: BIM_start_def)
  from BIM_loop_last [OF inv0 assms(1), of T atk y n]
  obtain a' s' where
    loop: "BIM_loop T atk x y (Suc n) (length (heap s), ?s0) = Inr (a', s')"
    and inv': "bim_inv (heap s) x (a', s')"
    and fr: "labels s' = labels ?s0" "params (model s') = params (model ?s0)"
      "training (model s') = training (model ?s0)"
      "\<not> training (model ?s0) \<longrightarrow> rng s' = rng ?s0"
    by blast
  have m: "model s' = (model s)\<lparr>param_grads := param_grads (model s'),
                                 last_feature_map := last_feature_map (model s')\<rparr>"
    using fr(2,3) by (intro classifier_frame) simp_all
  show ?thesis
    using loop inv' fr(1,4) m Suc
    by (simp add: BIM_perturb_def BIM_start_def bim_inv_def)
qed

subsection \<open>Indexing four-dimensional tensors\<close>

lemma idx_bound: "(a::nat) < A \<Longrightarrow> b < B \<Longrightarrow> a * B + b < A * B"
proof -
  assume a: "a < A" and b: "b < B"
  have "a * B + b < a * B + B" using b by simp
  also have "\<dots> = Suc a * B" by simp
  also have "\<dots> \<le> A * B" using a by (intro mult_le_mono1) simp
  finally show ?thesis .
qed

lemma idx4_bound:
  fixes b :: nat
  assumes "b < B" "c < C" "i < H" "j < W"
  shows "((b * C + c) * H + i) * W + j < B * C * H * W"
proof -
  have "b * C + c < B * C" using assms by (simp add: idx_bound)
  then have "(b * C + c) * H + i < B * C * H" using assms by (simp add: idx_bound)
  then show ?thesis using assms by (simp add: idx_bound)
qed

lemma idx_div: "b < B \<Longrightarrow> (a * B + b) div B = (a::nat)"
  by simp

lemma idx_mod: "b < B \<Longrightarrow> (a * B + b) mod B = (b::nat)"
  by simp

lemma dims_build4 [simp]: "dims (build4 B C H W f) = [B, C, H, W]"
  by (simp add: build4_def)

lemma length_build4 [simp]: "length (elems (build4 B C H W f)) = B * C * H * W"
  by (simp add: build4_def)

lemma at4_build4:
  assumes "b < B" "c < C" "i < H" "j < W"
  shows "at4 (build4 B C H W f) b c i j = f b c i j"
proof -
  let ?k = "((b * C + c) * H + i) * W + j"
  have k: "?k < B * C * H * W" using assms by (rule idx4_bound)
  have "at4 (build4 B C H W f) b c i j = elems (build4 B C H W f) ! ?k"
    by (simp add: at4_def)
  also have "\<dots> = f (?k div W div H div C) (?k div W div H mod C) (?k div W mod H) (?k mod W)"
    using k by (simp add: build4_def del: upt_Suc)
  also have "\<dots> = f b c i j"
    using assms by (simp add: idx_div idx_mod)
  finally show ?thesis .
qed

lemma decode_bounds:
  fixes k :: nat
  assumes "k < B * C * H * W"
  shows "k mod W < W" "k div W mod H < H" "k div W div H mod C < C" "k div W div H div C < B"
proof -
  have W: "0 < W" and H: "0 < H" and C: "0 < C" 
    using assms by (auto intro: Nat.gr0I)
  show "k mod W < W" using W by simp
  show "k div W mod H < H" using H by simp
  show "k div W div H mod C < C" using C by simp
  have "k < (B * C * H) * W" using assms by simp
  then have "k div W < B * C * H" using W by (simp add: less_mult_imp_div_less)
  then have "k div W div H < B * C" using H by (simp add: less_mult_imp_div_less)
  then show "k div W div H div C < B" using C by (simp add: less_mult_imp_div_less)
qed

lemma build4_cong:
  assumes "\<And>b c i j. b < B \<Longrightarrow> c < C \<Longrightarrow> i < H \<Longrightarrow> j < W \<Longrightarrow> f b c i j = f' b c i j"
  shows "build4 B C H W f = build4 B C H W f'"
  unfolding build4_def
  using assms by (simp add: decode_bounds del: upt_Suc)

lemma build4_nonempty:
  assumes "0 < B" "0 < C" "0 < H" "0 < W"
  shows "elems (build4 B C H W f) \<noteq> []"
proof -
  have "0 < length (elems (build4 B C H W f))" using assms by simp
  then show ?thesis by blast
qed

lemma dims4:
  assumes "length (dims G) = 4"
  shows "dims G = [dims G ! 0, dims G ! 1, dims G ! 2, dims G ! 3]"
  using assms by (auto simp: list_eq_iff_nth_eq less_Suc_eq numeral_eq_Suc nth_Cons split: nat.splits)

lemma relu_build4: "relu_t (build4 B C H W f) = build4 B C H W (\<lambda>b c i j. max 0 (f b c i j))"
  by (simp add: relu_t_def build4_def)

subsection \<open>Normalization\<close>

lemma min_t_eq:
  "min_t m = (if elems m = [] then Inl RuntimeError else Inr (Min (set (elems m))))"
proof (cases "elems m")
  case Nil
  then show ?thesis by (simp add: min_t_def)
next
  case (Cons v vs)
  have "Min (set (v # vs)) = fold min vs v" by (rule Min.set_eq_fold)
  with Cons show ?thesis by (simp add: min_t_def)
qed

lemma max_t_eq:
  "max_t m = (if elems m = [] then Inl RuntimeError else Inr (Max (set (elems m))))"
proof (cases "elems m")
  case Nil
  then show ?thesis by (simp add: max_t_def)
next
  case (Cons v vs)
  have "Max (set (v # vs)) = fold max vs v" by (rule Max.set_eq_fold)
  with Cons show ?thesis by (simp add: max_t_def)
qed

lemma stability_pos:
  fixes vs :: "real list"
  assumes "vs \<noteq> []"
  shows "0 < Max (set vs) - Min (set vs) + 1 / 10 ^ 8"
proof -
  have "Min (set vs) \<le> Max (set vs)" using assms by (simp add: Min_le_iff)
  then show ?thesis by simp
qed

lemma normalize_t_eq:
  "normalize_t m =
     (if elems m = [] then Inl RuntimeError
      else Inr (m\<lparr>elems := spec_normalize (elems m)\<rparr>))"
proof (cases "elems m = []")
  case True
  then show ?thesis by (simp add: normalize_t_def min_t_eq)
next
  case False
  from stability_pos [OF False]
  have "Max (set (elems m)) - Min (set (elems m)) + 1 / 10 ^ 8 \<noteq> 0" by simp
  with False show ?thesis
    by (simp add: normalize_t_def min_t_eq max_t_eq spec_normalize_def)
qed

lemma spec_normalize_range:
  assumes "v \<in> set (spec_normalize vs)"
  shows "0 \<le> v \<and> v \<le> 1"
proof -
  from assms obtain u where u: "u \<in> set vs"
    and v: "v = (u - Min (set vs)) / (Max (set vs) - Min (set vs) + 1 / 10 ^ 8)"
    by (auto simp: spec_normalize_def)
  have ne: "vs \<noteq> []" using u by auto
  have lo: "Min (set vs) \<le> u" and hi: "u \<le> Max (set vs)" using u by simp_all
  have d: "0 < Max (set vs) - Min (set vs) + 1 / 10 ^ 8" using stability_pos [OF ne] .
  have "u - Min (set vs) \<le> Max (set vs) - Min (set vs) + 1 / 10 ^ 8" using hi by simp
  then have "v \<le> 1" unfolding v using d by (simp add: divide_le_eq)
  moreover have "0 \<le> v" unfolding v using lo d by (simp add: zero_le_divide_iff)
  ultimately show ?thesis by simp
qed

lemma spec_normalize_zero:
  assumes "\<forall>v\<in>set vs. v = 0"
  shows "\<forall>v\<in>set (spec_normalize vs). v = 0"
proof
  fix v assume "v \<in> set (spec_normalize vs)"
  then obtain u where u: "u \<in> set vs"
    and v: "v = (u - Min (set vs)) / (Max (set vs) - Min (set vs) + 1 / 10 ^ 8)"
    by (auto simp: spec_normalize_def)
  have "Min (set vs) \<in> set vs" using u by (intro Min_in) auto
  then have "Min (set vs) = 0" "u = 0" using assms u by auto
  then show "v = 0" unfolding v by simp
qed

subsection \<open>The map before and after the resize\<close>

lemma sum_list_upt_sum: "sum_list (map f [0..<n]) = (\<Sum>i<n. f i)" for f :: "nat \<Rightarrow> real"
  by (simp add: interv_sum_list_conv_sum_set_nat atLeast0LessThan)

lemma mean_hw_at:
  assumes "b < dims G ! 0" "c < dims G ! 1"
  shows "at4 (mean_hw G) b c 0 0 = spec_weight G b c"
  using assms
  by (simp add: mean_hw_def Let_def at4_build4 spec_weight_def sum_list_upt_sum)

lemma raw_map_eq:
  assumes "length (dims G) = 4" "dims A = dims G"
  shows "relu_t (sum_c (mul_bc (mean_hw G) A)) =
         build4 (dims A ! 0) 1 (dims A ! 2) (dims A ! 3) (\<lambda>b c i j. spec_map G A b i j)"
proof -
  let ?B = "dims G ! 0" and ?C = "dims G ! 1" and ?H = "dims G ! 2" and ?W = "dims G ! 3"
  have mul: "mul_bc (mean_hw G) A =
      build4 ?B ?C ?H ?W (\<lambda>b c i j. spec_weight G b c * at4 A b c i j)"
    unfolding mul_bc_def assms(2)
    by (rule build4_cong) (simp add: mean_hw_at)
  have "sum_c (mul_bc (mean_hw G) A) =
      build4 ?B 1 ?H ?W (\<lambda>b c i j. \<Sum>c<?C. spec_weight G b c * at4 A b c i j)"
    unfolding mul sum_c_def
    by (simp, rule build4_cong) (simp add: sum_list_upt_sum at4_build4)
  then show ?thesis
    by (simp add: relu_build4 spec_map_def assms(2))
qed

lemma source_index_bounds:
  assumes "0 < n" "source_index n n_out k = (i0, i1, l)"
  shows "i0 < n" "i1 < n"
proof -
  define src :: real where "src = max 0 (real n / real n_out * (real k + 1 / 2) - 1 / 2)"
  define a where "a = min (nat \<lfloor>src\<rfloor>) (n - 1)"
  have "(a, a + (if a < n - 1 then 1 else 0), min (max (src - real a) 0) 1) = (i0, i1, l)"
    using assms(2) unfolding source_index_def Let_def src_def a_def .
  then have i0: "i0 = a" and i1: "i1 = a + (if a < n - 1 then 1 else 0)"
    by fast+
  have a: "a \<le> n - 1" unfolding a_def by (rule min.cobounded2)
  then show "i0 < n" using assms(1) i0 by simp
  show "i1 < n" unfolding i1 using a assms(1) by (cases "a < n - 1") simp_all
qed

lemma interpolate_not_nan: "interpolate_bilinear m sz \<noteq> Inl NotANumber"
  by (auto simp: interpolate_bilinear_def Let_def split: list.splits)

lemma interpolate_zero:
  assumes "interpolate_bilinear (build4 B C H W (\<lambda>b c i j. 0)) sz = Inr r"
  shows "\<forall>v\<in>set (elems r). v = 0"
proof -
  from assms obtain Ho Wo where sz: "sz = [Ho, Wo]" and pos: "0 < H" "0 < W"
    and r: "r = build4 B C Ho Wo
       (\<lambda>b c oy ox.
          (case source_index H Ho oy of (i0, i1, lh) \<Rightarrow>
           case source_index W Wo ox of (j0, j1, lw) \<Rightarrow>
             (1 - lh) * ((1 - lw) * at4 (build4 B C H W (\<lambda>b c i j. 0)) b c i0 j0
                          + lw * at4 (build4 B C H W (\<lambda>b c i j. 0)) b c i0 j1)
             + lh * ((1 - lw) * at4 (build4 B C H W (\<lambda>b c i j. 0)) b c i1 j0
                      + lw * at4 (build4 B C H W (\<lambda>b c i j. 0)) b c i1 j1)))"
    by (auto simp: interpolate_bilinear_def Let_def split: list.splits if_splits)
  have "r = build4 B C Ho Wo (\<lambda>b c oy ox. 0)"
    unfolding r
  proof (rule build4_cong)
    fix b c oy ox assume bc: "b < B" "c < C"
    obtain i0 i1 lh where h: "source_index H Ho oy = (i0, i1, lh)" by (cases "source_index H Ho oy")
    obtain j0 j1 lw where w: "source_index W Wo ox = (j0, j1, lw)" by (cases "source_index W Wo ox")
    from source_index_bounds [OF pos(1) h] source_index_bounds [OF pos(2) w] bc
    show "(case source_index H Ho oy of (i0, i1, lh) \<Rightarrow>
           case source_index W Wo ox of (j0, j1, lw) \<Rightarrow>
             (1 - lh) * ((1 - lw) * at4 (build4 B C H W (\<lambda>b c i j. 0)) b c i0 j0
                          + lw * at4 (build4 B C H W (\<lambda>b c i j. 0)) b c i0 j1)
             + lh * ((1 - lw) * at4 (build4 B C H W (\<lambda>b c i j. 0)) b c i1 j0
                      + lw * at4 (build4 B C H W (\<lambda>b c i j. 0)) b c i1 j1)) = 0"
      by (simp add: h w at4_build4)
  qed
  then show ?thesis by (auto simp: build4_def simp del: upt_Suc)
qed

lemma interpolate_succeeds:
  assumes "dims m = [B, C, H, W]" "0 < B" "0 < C" "0 < H" "0 < W" "0 < Ho" "0 < Wo"
  shows "\<exists>r. interpolate_bilinear m [Ho, Wo] = Inr r \<and> elems r \<noteq> []"
  using assms build4_nonempty [OF assms(2,3,6,7)]
  by (simp add: interpolate_bilinear_def Let_def)

lemma at4_zero:
  assumes "length (dims G) = 4" "length (elems G) = prod_list (dims G)"
    "\<forall>v\<in>set (elems G). v = 0"
    "b < dims G ! 0" "c < dims G ! 1" "i < dims G ! 2" "j < dims G ! 3"
  shows "at4 G b c i j = 0"
proof -
  have "prod_list (dims G) = dims G ! 0 * dims G ! 1 * dims G ! 2 * dims G ! 3"
    by (subst dims4 [OF assms(1)]) (simp add: mult.assoc)
  then have "((b * (dims G ! 1) + c) * (dims G ! 2) + i) * (dims G ! 3) + j < length (elems G)"
    using idx4_bound [OF assms(4-7)] assms(2) by simp
  then show ?thesis using assms(3) by (simp add: at4_def)
qed

lemma spec_map_zero:
  assumes "length (dims G) = 4" "length (elems G) = prod_list (dims G)"
    "\<forall>v\<in>set (elems G). v = 0" "dims A = dims G" "b < dims G ! 0"
  shows "spec_map G A b i j = 0"
proof -
  have "spec_weight G b c = 0" if "c < dims G ! 1" for c
    using assms that by (simp add: spec_weight_def at4_zero)
  then show ?thesis by (simp add: spec_map_def assms(4))
qed

subsection \<open>The statements after the backward pass\<close>

lemma cam_of_not_nan: "cam_of g ds \<noteq> Inl NotANumber"
  using interpolate_not_nan
  by (auto simp: cam_of_def Let_def normalize_t_eq split: option.splits sum.splits)

lemma cam_of_Inr:
  assumes "cam_of g ds = Inr m"
  shows "\<exists>G A r. gradients g = Some G \<and> activations g = Some A \<and> length (dims G) = 4 \<and>
           dims A = dims G \<and>
           interpolate_bilinear (relu_t (sum_c (mul_bc (mean_hw G) A))) (drop 2 ds) = Inr r \<and>
           elems r \<noteq> [] \<and> m = r\<lparr>elems := spec_normalize (elems r)\<rparr>"
  using assms
  by (auto simp: cam_of_def Let_def normalize_t_eq split: option.splits sum.splits if_splits)

lemma cam_of_spec:
  assumes "cam_of g ds = Inr m"
  shows "\<exists>G A. gradients g = Some G \<and> activations g = Some A \<and> spec_gradcam G A ds = Inr m"
proof -
  from cam_of_Inr [OF assms] obtain G A r where
    g: "gradients g = Some G" "activations g = Some A" "length (dims G) = 4" "dims A = dims G"
    and r: "interpolate_bilinear (relu_t (sum_c (mul_bc (mean_hw G) A))) (drop 2 ds) = Inr r"
    and m: "m = r\<lparr>elems := spec_normalize (elems r)\<rparr>"
    by blast
  have "spec_gradcam G A ds = Inr m"
    using r m unfolding raw_map_eq [OF g(3,4)] by (simp add: spec_gradcam_def)
  with g show ?thesis by blast
qed

lemma cam_of_zero:
  assumes "cam_of g ds = Inr m" "gradients g = Some G"
    "length (elems G) = prod_list (dims G)" "\<forall>v\<in>set (elems G). v = 0"
  shows "\<forall>v\<in>set (elems m). v = 0"
proof -
  from cam_of_Inr [OF assms(1)] assms(2) obtain A r where
    g: "activations g = Some A" "length (dims G) = 4" "dims A = dims G"
    and r: "interpolate_bilinear (relu_t (sum_c (mul_bc (mean_hw G) A))) (drop 2 ds) = Inr r"
    and m: "m = r\<lparr>elems := spec_normalize (elems r)\<rparr>"
    by auto
  have "build4 (dims A ! 0) 1 (dims A ! 2) (dims A ! 3) (\<lambda>b c i j. spec_map G A b i j) =
        build4 (dims A ! 0) 1 (dims A ! 2) (dims A ! 3) (\<lambda>b c i j. 0)"
    by (rule build4_cong) (simp add: spec_map_zero [OF g(2) assms(3,4) g(3)] g(3))
  with r have "interpolate_bilinear (build4 (dims A ! 0) 1 (dims A ! 2) (dims A ! 3) (\<lambda>b c i j. 0))
       (drop 2 ds) = Inr r"
    by (simp add: raw_map_eq [OF g(2,3)])
  from interpolate_zero [OF this] show ?thesis
    unfolding m using spec_normalize_zero by simp
qed

lemma cam_of_range:
  assumes "cam_of g ds = Inr m"
  shows "list_all (\<lambda>v. 0 \<le> v \<and> v \<le> 1) (elems m)"
proof -
  from cam_of_Inr [OF assms] obtain r where "m = r\<lparr>elems := spec_normalize (elems r)\<rparr>"
    by blast
  then show ?thesis using spec_normalize_range by (simp add: list_all_iff)
qed

lemma spec_gradcam_dims:
  assumes "spec_gradcam G A ds = Inr m"
  shows "dims m = [dims A ! 0, 1] @ drop 2 ds"
  using assms
  by (auto simp: spec_gradcam_def interpolate_bilinear_def Let_def split: sum.splits list.splits if_splits)

subsection \<open>The call as a whole\<close>

lemma forward_mask_zero_grad [simp]:
  "forward_mask T (s\<lparr>model := (model s)\<lparr>param_grads := v\<rparr>\<rparr>) = forward_mask T s"
  by (simp add: forward_mask_def)

lemma generate_eq:
  "GradCAM_generate T g s x t =
     (let g1 = (case hook_output T g s x of None \<Rightarrow> g | Some a \<Rightarrow> g\<lparr>activations := Some a\<rparr>);
          s1 = s\<lparr>model := (model s)\<lparr>param_grads := None,
                    last_feature_map := Some (conv T (params (model s)) (fst (forward_mask T s)) x)\<rparr>,
                 rng := snd (forward_mask T s)\<rparr>
      in case score_index (dims (scores T s x)) t of
           Inl e \<Rightarrow> (Inl e, g1, s1)
         | Inr k \<Rightarrow>
             (let g2 = (case hook_output T g s x of None \<Rightarrow> g1
                        | Some a \<Rightarrow> g1\<lparr>gradients := Some (hook_grad T g s x k)\<rparr>)
              in (cam_of g2 (dims x), g2,
                  s1\<lparr>model := (model s1)\<lparr>param_grads :=
                        Some (score_grad_params T (params (model s)) (fst (forward_mask T s)) x k)\<rparr>\<rparr>)))"
  by (cases "score_index (dims (scores T s x)) t";
      cases "layer_output T (target_layer g) (params (model s)) (fst (forward_mask T s)) x")
    (simp_all add: GradCAM_generate_def CNN_forward_def Let_def split_def scores_def
      hook_output_def hook_grad_def zero_grad_def)

lemma generate_Inr:
  assumes "GradCAM_generate T g s x t = (Inr m, g', s')"
  shows "\<exists>k. score_index (dims (scores T s x)) t = Inr k \<and> cam_of g' (dims x) = Inr m \<and>
           (\<forall>a. hook_output T g s x = Some a \<longrightarrow>
                  activations g' = Some a \<and> gradients g' = Some (hook_grad T g s x k)) \<and>
           param_grads (model s') =
             Some (score_grad_params T (params (model s)) (fst (forward_mask T s)) x k)"
  using assms
  by (auto simp: generate_eq Let_def split: sum.splits option.splits)

lemma generate_not_nan: "fst (GradCAM_generate T g s x t) \<noteq> Inl NotANumber"
  using cam_of_not_nan
  by (auto simp: GradCAM_generate_def Let_def split_def score_index_def split: sum.splits list.splits if_splits)

lemma generate_succeeds:
  assumes "hook_output T g s x = Some A" "score_index (dims (scores T s x)) t = Inr k"
    and "dims A = [B, C, H, W]" "dims (hook_grad T g s x k) = dims A"
    and "0 < B" "0 < H" "0 < W"
    and "drop 2 (dims x) = [Ho, Wo]" "0 < Ho" "0 < Wo"
  shows "\<exists>m g' s'. GradCAM_generate T g s x t = (Inr m, g', s')"
proof -
  have raw: "relu_t (sum_c (mul_bc (mean_hw (hook_grad T g s x k)) A)) =
      build4 B 1 H W (\<lambda>b c i j. spec_map (hook_grad T g s x k) A b i j)"
    using raw_map_eq [of "hook_grad T g s x k" A] assms(3,4) by simp
  from interpolate_succeeds [of _ B 1 H W Ho Wo] assms(5-7,9,10)
  obtain r where r: "interpolate_bilinear
        (build4 B 1 H W (\<lambda>b c i j. spec_map (hook_grad T g s x k) A b i j)) [Ho, Wo] = Inr r"
      "elems r \<noteq> []"
    by (metis dims_build4 zero_less_one)
  have "cam_of (g\<lparr>activations := Some A, gradients := Some (hook_grad T g s x k)\<rparr>) (dims x) =
      Inr (r\<lparr>elems := spec_normalize (elems r)\<rparr>)"
    using assms(3,4,8) r by (simp add: cam_of_def Let_def raw normalize_t_eq)
  then show ?thesis
    using assms(1,2) by (simp add: generate_eq Let_def)
qed

subsection \<open>Runs on the small classifier\<close>

lemma toy_hooks:
  "hook_output toy_torch (GradCAM_init 0) toy_cam_state toy_image =
     Some \<lparr>dims = [1, 1, 1, 4], elems = [1 / 2, 1 / 4, 0, 1]\<rparr>"
  "hook_grad toy_torch (GradCAM_init 0) toy_cam_state toy_image k =
     \<lparr>dims = [1, 1, 1, 4], elems = [1, 2, 3, 2]\<rparr>"
  "score_index (dims (scores toy_torch toy_cam_state toy_image)) 0 = Inr 0"
  by (simp_all add: hook_output_def hook_grad_def scores_def toy_torch_def GradCAM_init_def
      toy_cam_state_def toy_state_def toy_image_def forward_mask_def dropout_def score_index_def)

lemma toy_cam:
  "cam_of \<lparr>target_layer = 0,
            gradients = Some \<lparr>dims = [1, 1, 1, 4], elems = [1, 2, 3, 2]\<rparr>,
            activations = Some \<lparr>dims = [1, 1, 1, 4], elems = [1 / 2, 1 / 4, 0, 1]\<rparr>\<rparr> [1, 1, 2, 2] =
     Inr \<lparr>dims = [1, 1, 2, 2], elems = [0, 25000000 / 25000001, 0, 25000000 / 25000001]\<rparr>"
  by (simp add: cam_of_def relu_t_def sum_c_def mul_bc_def mean_hw_def build4_def at4_def Let_def
      upt_rec interpolate_bilinear_def source_index_def normalize_t_def min_t_def max_t_def)

lemma toy_full:
  "GradCAM_generate toy_torch (GradCAM_init 0) toy_cam_state toy_image 0 =
     (Inr \<lparr>dims = [1, 1, 2, 2], elems = [0, 25000000 / 25000001, 0, 25000000 / 25000001]\<rparr>,
      \<lparr>target_layer = 0,
       gradients = Some \<lparr>dims = [1, 1, 1, 4], elems = [1, 2, 3, 2]\<rparr>,
       activations = Some \<lparr>dims = [1, 1, 1, 4], elems = [1 / 2, 1 / 4, 0, 1]\<rparr>\<rparr>,
      toy_cam_state\<lparr>model := (model toy_cam_state)\<lparr>param_grads := Some [1 / 2, 1 / 4, 0, 1],
                                   last_feature_map := Some toy_image\<rparr>\<rparr>)"
  unfolding generate_eq Let_def toy_hooks
  using toy_cam
  by (simp add: GradCAM_init_def toy_image_def toy_cam_state_def toy_state_def toy_torch_def
      forward_mask_def dropout_def)

lemma toy_zero_hooks:
  "hook_output toy_torch (GradCAM_init 0) toy_zero_state toy_image =
     Some \<lparr>dims = [1, 1, 1, 4], elems = [1 / 2, 1 / 4, 0, 1]\<rparr>"
  "hook_grad toy_torch (GradCAM_init 0) toy_zero_state toy_image k =
     \<lparr>dims = [1, 1, 1, 4], elems = [0, 0, 0, 0]\<rparr>"
  "score_index (dims (scores toy_torch toy_zero_state toy_image)) 0 = Inr 0"
  by (simp_all add: hook_output_def hook_grad_def scores_def toy_torch_def GradCAM_init_def
      toy_zero_state_def toy_state_def toy_image_def forward_mask_def dropout_def score_index_def)

lemma toy_zero_cam:
  "cam_of \<lparr>target_layer = 0,
            gradients = Some \<lparr>dims = [1, 1, 1, 4], elems = [0, 0, 0, 0]\<rparr>,
            activations = Some \<lparr>dims = [1, 1, 1, 4], elems = [1 / 2, 1 / 4, 0, 1]\<rparr>\<rparr> [1, 1, 2, 2] =
     Inr \<lparr>dims = [1, 1, 2, 2], elems = [0, 0, 0, 0]\<rparr>"
  by (simp add: cam_of_def relu_t_def sum_c_def mul_bc_def mean_hw_def build4_def at4_def Let_def
      upt_rec interpolate_bilinear_def source_index_def normalize_t_def min_t_def max_t_def)

lemma toy_zero_full:
  "GradCAM_generate toy_torch (GradCAM_init 0) toy_zero_state toy_image 0 =
     (Inr \<lparr>dims = [1, 1, 2, 2], elems = [0, 0, 0, 0]\<rparr>,
      \<lparr>target_layer = 0,
       gradients = Some \<lparr>dims = [1, 1, 1, 4], elems = [0, 0, 0, 0]\<rparr>,
       activations = Some \<lparr>dims = [1, 1, 1, 4], elems = [1 / 2, 1 / 4, 0, 1]\<rparr>\<rparr>,
      toy_zero_state\<lparr>model := (model toy_zero_state)\<lparr>param_grads := Some [1 / 2, 1 / 4, 0, 1],
                                   last_feature_map := Some toy_image\<rparr>\<rparr>)"
  unfolding generate_eq Let_def toy_zero_hooks
  using toy_zero_cam
  by (simp add: GradCAM_init_def toy_image_def toy_zero_state_def toy_state_def toy_torch_def
      forward_mask_def dropout_def)

section \<open>The single-step attack computes the sign-gradient step\<close>

text \<open>
  Claim C1. For every image batch \<open>x\<close>, label batch \<open>y\<close> and budget \<open>\<epsilon>\<close>,
  \<^verbatim>\<open>FGSMAttack.perturb(x, y)\<close> returns a tensor of the shape of \<open>x\<close> whose elements are
  exactly \<open>clip(x + \<epsilon> \<sqdot> sign(grad), 0, 1)\<close>, where \<open>grad\<close> is the gradient of the loss with
  respect to \<open>x\<close> that the backward pass of the call computes. Run on the \<open>1\<times>1\<times>4\<times>4\<close> image
  of value \<open>0.5\<close> with \<open>\<epsilon> = 0.1\<close> and a classifier of known gradient signs, the result is
  \<open>0.6\<close>, \<open>0.4\<close> or \<open>0.5\<close> where the sign is positive, negative or zero.
\<close>

theorem fgsm_formula:
  assumes "x < length (heap s)"
  shows "output_of (FGSM_perturb T atk s x y) =
     Inr \<lparr>dims = dims (heap s ! x),
          elems = spec_fgsm (FGSMAttack.epsilon atk) (elems (heap s ! x))
               (input_gradient T (FGSMAttack.loss_fn atk) s (value_of (heap s ! x)) (labels s ! y))\<rparr>"
  using assms by (simp add: FGSM_output spec_fgsm_eq)

text \<open>The scenario of the specification, run: an all-\<open>0.5\<close> image of shape \<open>1\<times>1\<times>4\<times>4\<close>, label
  \<open>0\<close>, \<open>\<epsilon> = 0.1\<close>, and the gradient signs of \<open>toy_pattern\<close>.\<close>

theorem fgsm_formula_witness:
  "0 < length (heap toy_state) \<and>
   output_of (FGSM_perturb toy_torch (FGSMAttack_init (1 / 10) None) toy_state 0 0) =
     Inr \<lparr>dims = [1, 1, 4, 4],
          elems = [3 / 5, 2 / 5, 1 / 2, 3 / 5, 2 / 5, 2 / 5, 3 / 5, 1 / 2,
                   1 / 2, 3 / 5, 2 / 5, 3 / 5, 2 / 5, 3 / 5, 3 / 5, 2 / 5]\<rparr>"
  using fgsm_formula [of 0 toy_state toy_torch "FGSMAttack_init (1 / 10) None" 0]
  by (simp add: toy_state_def toy_torch_def toy_pattern_def FGSMAttack_init_def spec_fgsm_def
      input_gradient_def forward_mask_def value_of_def dropout_def spec_clip_def spec_sign_def
      upt16 numeral_eq_Suc)

section \<open>The iterative attack stays within the budget\<close>



section \<open>The single-step attack stays within the budget\<close>



section \<open>One iteration with the budget as step size\<close>




section \<open>The activation map is normalized, also for a zero gradient\<close>



section \<open>The activation map is computed by the reference algorithm\<close>



section \<open>A layer that was never executed\<close>



section \<open>What an attack leaves unchanged\<close>

text \<open>
  Claim C8, amended. A call of \<^verbatim>\<open>FGSMAttack.perturb\<close> or \<^verbatim>\<open>BIMAttack.perturb\<close> returns a
  new tensor object and leaves every tensor object that existed before the call, the
  input \<open>x\<close> among them, and every label tensor as it was. Of the classifier it changes
  the gradient buffers and the attribute \<^verbatim>\<open>last_feature_map\<close>, which every forward pass
  assigns, and nothing else: parameters and training flag are as before. In evaluation
  mode the random generator is as before too. The claim as stated, that the gradient
  buffers are the only classifier state a call changes, fails on \<^verbatim>\<open>last_feature_map\<close>.
\<close>

theorem attacks_frame:
  assumes "x < length (heap s)"
  shows "(\<exists>a s'. FGSM_perturb T fatk s x y = Inr (a, s') \<and>
           length (heap s) \<le> a \<and> a < length (heap s') \<and>
           take (length (heap s)) (heap s') = heap s \<and> labels s' = labels s \<and>
           model s' = (model s)\<lparr>param_grads := param_grads (model s'),
                                 last_feature_map := last_feature_map (model s')\<rparr> \<and>
           (\<not> training (model s) \<longrightarrow> rng s' = rng s)) \<and>
         (\<exists>a s'. BIM_perturb T batk s x y = Inr (a, s') \<and>
           length (heap s) \<le> a \<and> a < length (heap s') \<and>
           take (length (heap s)) (heap s') = heap s \<and> labels s' = labels s \<and>
           model s' = (model s)\<lparr>param_grads := param_grads (model s'),
                                 last_feature_map := last_feature_map (model s')\<rparr> \<and>
           (\<not> training (model s) \<longrightarrow> rng s' = rng s))"
  using FGSM_frame [OF assms] BIM_frame [OF assms] by blast

text \<open>Runs of both attacks in evaluation mode.\<close>

theorem attacks_frame_witness:
  "0 < length (heap toy_state) \<and>
   (\<exists>a s'. FGSM_perturb toy_torch (FGSMAttack_init (1 / 10) None) toy_state 0 0 = Inr (a, s') \<and>
           length (heap toy_state) \<le> a \<and> a < length (heap s') \<and>
           take (length (heap toy_state)) (heap s') = heap toy_state \<and>
           labels s' = labels toy_state \<and>
           model s' = (model toy_state)\<lparr>param_grads := param_grads (model s'),
                                 last_feature_map := last_feature_map (model s')\<rparr> \<and>
           rng s' = rng toy_state) \<and>
   (\<exists>a s'. BIM_perturb toy_torch (BIMAttack_init (8 / 255) (2 / 255) 5 None) toy_state 0 0 = Inr (a, s') \<and>
           length (heap toy_state) \<le> a \<and> a < length (heap s') \<and>
           take (length (heap toy_state)) (heap s') = heap toy_state \<and>
           labels s' = labels toy_state \<and>
           model s' = (model toy_state)\<lparr>param_grads := param_grads (model s'),
                                 last_feature_map := last_feature_map (model s')\<rparr> \<and>
           rng s' = rng toy_state)"
proof -
  have "0 < length (heap toy_state)" "\<not> training (model toy_state)"
    by (simp_all add: toy_state_def)
  then show ?thesis
    using attacks_frame [of 0 toy_state toy_torch "FGSMAttack_init (1 / 10) None" 0
      "BIMAttack_init (8 / 255) (2 / 255) 5 None"]
    by simp
qed

text \<open>After a call the attribute \<^verbatim>\<open>last_feature_map\<close>, absent before, holds the feature map
  of the pass.\<close>

theorem attack_overwrites_feature_map:
  "map_option last_feature_map
     (model_after (FGSM_perturb toy_torch (FGSMAttack_init (1 / 10) None) toy_state 0 0)) =
     Some (Some \<lparr>dims = [1, 1, 4, 4], elems = replicate 16 (1 / 2)\<rparr>) \<and>
   last_feature_map (model toy_state) = None"
proof -
  have x: "0 < length (heap toy_state)" by (simp add: toy_state_def)
  show ?thesis
    unfolding FGSM_perturb_result [OF x]
    by (simp add: model_after_def toy_state_def toy_torch_def forward_mask_def dropout_def value_of_def)
qed

section \<open>Two calls of the single-step attack\<close>

text \<open>
  Claim C9, amended. Two calls of \<^verbatim>\<open>FGSMAttack.perturb\<close> on the same arguments, with no
  parameter update between them, return the same tensor when the classifier is in
  evaluation mode. The claim as stated does not ask for evaluation mode and fails in
  training mode, where the dropout layer of \<^verbatim>\<open>CNN\<close> draws a new mask in each forward
  pass: below, the first call keeps every element and the second drops every element.
\<close>

theorem fgsm_deterministic_in_eval_mode:
  assumes "x < length (heap s)" and "\<not> training (model s)"
  shows "\<exists>t. two_calls T atk s x y = Inr (t, t)"
  using assms by (simp add: two_calls_result forward_mask_eval)

text \<open>Two calls in evaluation mode.\<close>

theorem fgsm_deterministic_in_eval_mode_witness:
  "0 < length (heap toy_state) \<and> \<not> training (model toy_state) \<and>
   (\<exists>t. two_calls toy_torch (FGSMAttack_init (1 / 10) None) toy_state 0 0 = Inr (t, t))"
  using fgsm_deterministic_in_eval_mode [of 0 toy_state toy_torch "FGSMAttack_init (1 / 10) None" 0]
  by (simp add: toy_state_def)

text \<open>Two calls in training mode.\<close>

theorem fgsm_dropout_breaks_determinism:
  "two_calls toy_torch (FGSMAttack_init (1 / 10) None) toy_train_state 0 0 =
     Inr (\<lparr>dims = [1, 1, 4, 4],
           elems = [3 / 5, 2 / 5, 1 / 2, 3 / 5, 2 / 5, 2 / 5, 3 / 5, 1 / 2,
                    1 / 2, 3 / 5, 2 / 5, 3 / 5, 2 / 5, 3 / 5, 3 / 5, 2 / 5]\<rparr>,
          \<lparr>dims = [1, 1, 4, 4], elems = replicate 16 (1 / 2)\<rparr>) \<and>
   training (model toy_train_state) \<and>
   \<lparr>dims = [1, 1, 4, 4],
    elems = [3 / 5, 2 / 5, 1 / 2, 3 / 5, 2 / 5, 2 / 5, 3 / 5, 1 / 2,
             1 / 2, 3 / 5, 2 / 5, 3 / 5, 2 / 5, 3 / 5, 3 / 5, 2 / 5]\<rparr> \<noteq>
   \<lparr>dims = [1, 1, 4, 4], elems = replicate 16 (1 / 2 :: real)\<rparr>"
proof -
  have x: "0 < length (heap toy_train_state)" by (simp add: toy_train_state_def toy_state_def)
  have g1: "input_gradient toy_torch CrossEntropyLoss toy_train_state
             (value_of (heap toy_train_state ! 0)) (labels toy_train_state ! 0) =
            map (\<lambda>w. w / (1 - 2 / 10)) toy_pattern"
    by (simp add: input_gradient_def toy_torch_def toy_train_state_def toy_state_def
        forward_mask_def dropout_def upt16 toy_pattern_def numeral_eq_Suc)
  have g2: "input_gradient toy_torch CrossEntropyLoss
             (toy_train_state\<lparr>rng := snd (forward_mask toy_torch toy_train_state)\<rparr>)
             (value_of (heap toy_train_state ! 0)) (labels toy_train_state ! 0) =
            replicate 16 0"
    by (simp add: input_gradient_def toy_torch_def toy_train_state_def toy_state_def
        forward_mask_def dropout_def upt16 toy_pattern_def numeral_eq_Suc)
  show ?thesis
    unfolding two_calls_result [OF x]
    by (simp add: FGSMAttack_init_def g1 g2)
      (simp add: toy_train_state_def toy_state_def toy_pattern_def clamp_t_def add_t_def
        scale_t_def sign_t_def clamp_def numeral_eq_Suc)
qed

section \<open>The outputs of the attacks lie in the unit interval\<close>



end
